theory Spec2Isabelle
  imports Main "HOL-Library.Word" "HOL-Library.Signed_Division"
begin

section \<open>Data model\<close>

text \<open>
  The connection layer of the transaction server: \<^verbatim>\<open>tran_server\<close> (the base, with its
  nested \<^verbatim>\<open>connection_handler\<close>) and \<^verbatim>\<open>active_tran_server\<close> (the ATS variant and its
  handler). Every handler here is the ATS handler, the only variant whose
  \<^verbatim>\<open>transition_to_connected\<close> and \<^verbatim>\<open>on_disconnecting\<close> are part of the sources.
\<close>

text \<open>\<^verbatim>\<open>tran_server::connection_handler::state\<close>.\<close>

datatype state = IDLE | CONNECTING | CONNECTED | DISCONNECTING

text \<open>The error codes the layer returns (distinct integer constants of the error manager).\<close>

datatype error_code =
    NO_ERROR
  | ER_HOST_PORT_PARAMETER
  | ER_NET_PAGESERVER_CONNECTION
  | ER_CONN_NO_PAGE_SERVER_AVAILABLE
  | ER_CONN_PAGE_SERVER_CANNOT_BE_REACHED

text \<open>\<^verbatim>\<open>css_error_code\<close>, as far as the layer tells its values apart.\<close>

datatype css_error_code = NO_ERRORS | CONNECTION_CLOSED | OTHER_CSS_ERROR

text \<open>
  What stops a call instead of letting it return: an \<^verbatim>\<open>assert\<close> that does not hold, or
  a dereference of a null pointer.
\<close>

datatype failure = Assertion_failed | Null_dereference

text \<open>\<^verbatim>\<open>cubcomm::node\<close>: the host name and port of one page server.\<close>

record node =
  host :: string
  port :: int

text \<open>
  The requests a handler pushes to its page server, with their payloads:
  \<^verbatim>\<open>SEND_START_CATCH_UP\<close> packs host, port and the catch-up LSA, \<^verbatim>\<open>SEND_DISCONNECT_MSG\<close> carries
  the connection type, \<^verbatim>\<open>SEND_LOG_PRIOR_LIST\<close> a message of the prior sender; any other request
  of a caller is kept with its payload.
\<close>

datatype 'lsa request =
    SEND_START_CATCH_UP string int 'lsa
  | SEND_DISCONNECT_MSG int
  | SEND_LOG_PRIOR_LIST string
  | OTHER_REQUEST nat string

text \<open>
  What a handler does to its collaborators, in the order it does it. \<open>Set_state\<close> records
  every assignment to \<^verbatim>\<open>m_state\<close>, so that the sequence of states a handler goes through can
  be read off; the others are the calls on the conn object, the prior sender, \<^verbatim>\<open>std::async\<close>
  and \<^verbatim>\<open>log_Gl\<close>.
\<close>

datatype 'lsa effect =
    Set_state state
  | Conn_start
  | Conn_push "'lsa request"
  | Conn_send_recv "'lsa request"
  | Conn_stop_incoming
  | Conn_destroy
  | Add_sink
  | Remove_sink
  | Spawn_teardown bool
  | Wakeup_ps_flush_waiters

text \<open>\<^verbatim>\<open>m_conn\<close> is a \<^verbatim>\<open>unique_ptr\<close>: \<open>None\<close> is \<^verbatim>\<open>nullptr\<close>.\<close>

datatype page_server_conn = Page_server_conn

text \<open>
  \<^verbatim>\<open>m_disconn_future\<close>: \<open>None\<close> is a future that is not \<^verbatim>\<open>valid ()\<close>; \<open>Some (Running b)\<close> is the
  future of a teardown task (started with \<^verbatim>\<open>with_disc_msg = b\<close>) that has not run yet,
  \<open>Some Finished\<close> that of a task that has run and whose result was not fetched.
\<close>

datatype disconn_future = Running bool | Finished

text \<open>
  \<^verbatim>\<open>active_tran_server::connection_handler\<close> with the members of its base class. The type
  \<^verbatim>\<open>log_lsa\<close> is declared outside the sources: it is the parameter \<open>'lsa\<close>, a linear order
  where it is compared. \<open>effects\<close> is not a member: it is the record of what the handler did.
\<close>

record 'lsa connection_handler =
  m_node :: node
  m_state :: state
  m_conn :: "page_server_conn option"
  m_disconn_future :: "disconn_future option"
  m_saved_lsa :: 'lsa
  m_prior_sender_sink_hook_func :: bool
  effects :: "'lsa effect list"

text \<open>
  Modelled from the spec: the state that the constructor of the base class
  \<^verbatim>\<open>tran_server::connection_handler\<close> gives a handler; that constructor is not part of the
  sources. The data model of the specification has \<^verbatim>\<open>IDLE\<close> as the initial state.
\<close>

definition initial_state :: state where
  [simp]: "initial_state = IDLE"

text \<open>
  The constructor of \<^verbatim>\<open>active_tran_server::connection_handler\<close>: it hands the node to the
  constructor of the base class and has \<^verbatim>\<open>m_saved_lsa { NULL_LSA }\<close>. The conn, the future and
  the sink hook are empty until they are assigned (\<^verbatim>\<open>set_connection\<close> and
  \<^verbatim>\<open>transition_to_connected\<close> assert so on the first \<^verbatim>\<open>connect\<close>).
\<close>

definition new_connection_handler :: "'lsa \<Rightarrow> node \<Rightarrow> 'lsa connection_handler" where
  "new_connection_handler NULL_LSA nd =
     \<lparr>m_node = nd, m_state = initial_state, m_conn = None, m_disconn_future = None,
      m_saved_lsa = NULL_LSA, m_prior_sender_sink_hook_func = False, effects = []\<rparr>"

definition is_connected :: "'lsa connection_handler \<Rightarrow> bool" where
  "is_connected h = (m_state h = CONNECTED)"

definition is_idle :: "'lsa connection_handler \<Rightarrow> bool" where
  "is_idle h = (m_state h = IDLE)"

definition get_saved_lsa :: "'lsa connection_handler \<Rightarrow> 'lsa" where
  "get_saved_lsa h = m_saved_lsa h"

section \<open>Consensus LSA\<close>





section \<open>Host string parsing and handler registration\<close>
















section \<open>The connection handler\<close>

definition emit :: "'lsa effect \<Rightarrow> 'lsa connection_handler \<Rightarrow> 'lsa connection_handler" where
  "emit e h = h\<lparr>effects := effects h @ [e]\<rparr>"

text \<open>An assignment \<^verbatim>\<open>m_state = s\<close>.\<close>

definition set_state :: "state \<Rightarrow> 'lsa connection_handler \<Rightarrow> 'lsa connection_handler" where
  "set_state s h = emit (Set_state s) (h\<lparr>m_state := s\<rparr>)"

text \<open>
  What one call of \<^verbatim>\<open>connect\<close> meets outside the handler: the results of the channel's
  \<^verbatim>\<open>connect\<close>, \<^verbatim>\<open>send_int\<close> and \<^verbatim>\<open>recv_int\<close> with the integer received, the LSA that
  \<^verbatim>\<open>add_sink\<close> of the prior sender returns with the answer of its \<^verbatim>\<open>is_null ()\<close>, and the node
  of the main connection of the server (\<open>None\<close> when \<^verbatim>\<open>m_main_conn\<close> is \<^verbatim>\<open>nullptr\<close>).
\<close>

record 'lsa connect_env =
  chn_connect :: css_error_code
  chn_send_int :: css_error_code
  chn_recv_int :: css_error_code
  returned_code :: int
  unsent_lsa :: 'lsa
  unsent_lsa_is_null :: bool
  main_conn_node :: "node option"

text \<open>
  \<^verbatim>\<open>tran_server::get_main_connection_info\<close>, on the node of the main connection: the result
  and the two output parameters.
\<close>

definition get_main_connection_info :: "node option \<Rightarrow> bool \<times> string \<times> int" where
  "get_main_connection_info main =
     (case main of None \<Rightarrow> (False, ''N/A'', - 1) | Some nd \<Rightarrow> (True, host nd, port nd))"

text \<open>\<^verbatim>\<open>ps_conn_error_lambda\<close> of \<^verbatim>\<open>connect\<close>.\<close>

definition ps_conn_error_lambda ::
  "'lsa connection_handler \<Rightarrow> error_code \<times> 'lsa connection_handler" where
  "ps_conn_error_lambda h = (ER_NET_PAGESERVER_CONNECTION, set_state IDLE h)"

text \<open>
  \<^verbatim>\<open>assert (cond)\<close> stops the program when \<open>cond\<close> does not hold, in a build that does not
  define \<^verbatim>\<open>NDEBUG\<close>; with \<^verbatim>\<open>NDEBUG\<close> the assertion is not compiled and the code runs on. Every
  function with an assertion takes the build as its first argument.
\<close>

definition assert_fails :: "bool \<Rightarrow> bool \<Rightarrow> bool" where
  "assert_fails NDEBUG cond = (\<not> NDEBUG \<and> \<not> cond)"

text \<open>\<^verbatim>\<open>set_connection\<close>: asserts that there is no conn, creates one and starts it.\<close>

definition set_connection ::
  "bool \<Rightarrow> 'lsa connection_handler \<Rightarrow> failure + 'lsa connection_handler" where
  "set_connection NDEBUG h =
     (if assert_fails NDEBUG (m_conn h = None) then Inl Assertion_failed
      else Inr (emit Conn_start (h\<lparr>m_conn := Some Page_server_conn\<rparr>)))"

text \<open>\<^verbatim>\<open>push_request_regardless_of_state\<close>: \<^verbatim>\<open>m_conn->push\<close> with no look at the state.\<close>

definition push_request_regardless_of_state ::
  "'lsa request \<Rightarrow> 'lsa connection_handler \<Rightarrow> failure + 'lsa connection_handler" where
  "push_request_regardless_of_state req h =
     (case m_conn h of None \<Rightarrow> Inl Null_dereference | Some c \<Rightarrow> Inr (emit (Conn_push req) h))"

text \<open>\<^verbatim>\<open>send_start_catch_up_request\<close>; the packing of the three values is the constructor.\<close>

definition send_start_catch_up_request ::
  "string \<Rightarrow> int \<Rightarrow> 'lsa \<Rightarrow> 'lsa connection_handler \<Rightarrow> failure + 'lsa connection_handler" where
  "send_start_catch_up_request hst prt catchup_lsa h =
     push_request_regardless_of_state (SEND_START_CATCH_UP hst prt catchup_lsa) h"

text \<open>\<^verbatim>\<open>active_tran_server::connection_handler::transition_to_connected\<close>.\<close>

definition transition_to_connected ::
  "bool \<Rightarrow> 'lsa connect_env \<Rightarrow> 'lsa connection_handler \<Rightarrow> failure + 'lsa connection_handler"
where
  "transition_to_connected NDEBUG env h =
     (if assert_fails NDEBUG (\<not> m_prior_sender_sink_hook_func h) then Inl Assertion_failed
      else
        (let h1 = emit Add_sink (h\<lparr>m_prior_sender_sink_hook_func := True\<rparr>)
         in if \<not> unsent_lsa_is_null env
            then (case get_main_connection_info (main_conn_node env) of
                (res, hostname, prt) \<Rightarrow>
                  if assert_fails NDEBUG res then Inl Assertion_failed
                  else send_start_catch_up_request hostname prt (unsent_lsa env) h1)
            else send_start_catch_up_request ''N/A'' (- 1) (unsent_lsa env) h1))"

text \<open>
  \<^verbatim>\<open>tran_server::connection_handler::connect\<close>, for a server whose \<^verbatim>\<open>m_conn_type\<close> is
  \<open>conn_type\<close>. It returns the error code and the handler, or the failure that stopped it.
\<close>

definition connect ::
  "bool \<Rightarrow> int \<Rightarrow> 'lsa connect_env \<Rightarrow> 'lsa connection_handler
     \<Rightarrow> failure + (error_code \<times> 'lsa connection_handler)" where
  "connect NDEBUG conn_type env h =
     (if assert_fails NDEBUG (m_state h = IDLE) then Inl Assertion_failed
      else
        (let h1 = set_state CONNECTING h
         in if chn_connect env \<noteq> NO_ERRORS then Inr (ps_conn_error_lambda h1)
            else if chn_send_int env \<noteq> NO_ERRORS then Inr (ps_conn_error_lambda h1)
            else if chn_recv_int env \<noteq> NO_ERRORS then Inr (ps_conn_error_lambda h1)
            else if returned_code env \<noteq> conn_type then Inr (ps_conn_error_lambda h1)
            else (case set_connection NDEBUG h1 of
                Inl f \<Rightarrow> Inl f
              | Inr h2 \<Rightarrow>
                  (case transition_to_connected NDEBUG env h2 of
                     Inl f \<Rightarrow> Inl f
                   | Inr h3 \<Rightarrow> Inr (NO_ERROR, h3)))))"

text \<open>\<^verbatim>\<open>active_tran_server::connection_handler::on_disconnecting\<close>.\<close>

definition on_disconnecting :: "'lsa connection_handler \<Rightarrow> 'lsa connection_handler" where
  "on_disconnecting h =
     (if m_prior_sender_sink_hook_func h
      then emit Remove_sink (h\<lparr>m_prior_sender_sink_hook_func := False\<rparr>)
      else h)"

text \<open>
  The task that \<^verbatim>\<open>disconnect_async\<close> hands to \<^verbatim>\<open>std::async\<close>, run from its first statement to
  its last.
\<close>

definition disconnect_task ::
  "bool \<Rightarrow> int \<Rightarrow> bool \<Rightarrow> 'lsa connection_handler \<Rightarrow> failure + 'lsa connection_handler"
where
  "disconnect_task NDEBUG conn_type with_disc_msg h =
     (let h1 = on_disconnecting h
      in if m_conn h1 = None then Inl Null_dereference
         else
           (let h2 = emit Conn_stop_incoming h1
            in if assert_fails NDEBUG (m_state h2 = DISCONNECTING) then Inl Assertion_failed
               else
                 (let h3 = (if with_disc_msg
                            then emit (Conn_push (SEND_DISCONNECT_MSG conn_type)) h2 else h2);
                      h4 = emit Conn_destroy (h3\<lparr>m_conn := None\<rparr>)
                  in Inr (set_state IDLE h4))))"

text \<open>
  \<^verbatim>\<open>disconnect_async\<close>. The assertion after the early return holds for every value of the
  enumeration, so the call cannot fail. The task is started and its future stored; the task
  is a later step of its own, since it writes the state and the conn under the state lock,
  which this call holds until it returns.
\<close>

definition disconnect_async :: "bool \<Rightarrow> 'lsa connection_handler \<Rightarrow> 'lsa connection_handler" where
  "disconnect_async with_disc_msg h =
     (if m_state h = IDLE \<or> m_state h = DISCONNECTING then h
      else emit (Spawn_teardown with_disc_msg)
             ((set_state DISCONNECTING h)\<lparr>m_disconn_future := Some (Running with_disc_msg)\<rparr>))"

text \<open>The started task gets to run: nothing happens when there is none waiting.\<close>

definition run_disconnect_task ::
  "bool \<Rightarrow> int \<Rightarrow> 'lsa connection_handler \<Rightarrow> failure + 'lsa connection_handler" where
  "run_disconnect_task NDEBUG conn_type h =
     (case m_disconn_future h of
        Some (Running with_disc_msg) \<Rightarrow>
          (case disconnect_task NDEBUG conn_type with_disc_msg h of
             Inl f \<Rightarrow> Inl f
           | Inr h' \<Rightarrow> Inr (h'\<lparr>m_disconn_future := Some Finished\<rparr>))
      | _ \<Rightarrow> Inr h)"

text \<open>
  \<^verbatim>\<open>wait_async_disconnection\<close>: \<^verbatim>\<open>get ()\<close> on a valid future waits until the task has run and
  leaves the future invalid; then the state is asserted to be \<^verbatim>\<open>IDLE\<close>.
\<close>

definition wait_async_disconnection ::
  "bool \<Rightarrow> int \<Rightarrow> 'lsa connection_handler \<Rightarrow> failure + 'lsa connection_handler" where
  "wait_async_disconnection NDEBUG conn_type h =
     (case (case m_disconn_future h of
              None \<Rightarrow> Inr h
            | Some fut \<Rightarrow>
                (case run_disconnect_task NDEBUG conn_type h of
                   Inl f \<Rightarrow> Inl f
                 | Inr h' \<Rightarrow> Inr (h'\<lparr>m_disconn_future := None\<rparr>))) of
        Inl f \<Rightarrow> Inl f
      | Inr h' \<Rightarrow>
          if assert_fails NDEBUG (m_state h' = IDLE) then Inl Assertion_failed else Inr h')"

text \<open>
  \<^verbatim>\<open>receive_saved_lsa\<close>, on the LSA that the payload holds (the copy out of the message bytes
  is not modelled).
\<close>

definition receive_saved_lsa ::
  "bool \<Rightarrow> 'lsa::linorder \<Rightarrow> 'lsa connection_handler \<Rightarrow> failure + 'lsa connection_handler"
where
  "receive_saved_lsa NDEBUG saved_lsa h =
     (if assert_fails NDEBUG (saved_lsa \<ge> get_saved_lsa h) then Inl Assertion_failed
      else if saved_lsa > get_saved_lsa h
           then Inr (emit Wakeup_ps_flush_waiters (h\<lparr>m_saved_lsa := saved_lsa\<rparr>))
           else Inr h)"

text \<open>\<^verbatim>\<open>receive_catchup_complete\<close>.\<close>

definition receive_catchup_complete ::
  "bool \<Rightarrow> 'lsa connection_handler \<Rightarrow> failure + 'lsa connection_handler" where
  "receive_catchup_complete NDEBUG h =
     (if assert_fails NDEBUG (m_state h = CONNECTING) then Inl Assertion_failed
      else Inr (set_state CONNECTED h))"

text \<open>
  \<^verbatim>\<open>receive_disconnect_request\<close> and the two error handlers of the conn (the flag
  \<^verbatim>\<open>abort_further_processing\<close> that \<^verbatim>\<open>send_error_handler\<close> sets for the conn is left out).
\<close>

definition receive_disconnect_request :: "'lsa connection_handler \<Rightarrow> 'lsa connection_handler" where
  "receive_disconnect_request h = disconnect_async True h"

definition send_error_handler ::
  "css_error_code \<Rightarrow> 'lsa connection_handler \<Rightarrow> 'lsa connection_handler" where
  "send_error_handler error_code h =
     (if error_code = CONNECTION_CLOSED then disconnect_async False h else h)"

definition recv_error_handler ::
  "css_error_code \<Rightarrow> 'lsa connection_handler \<Rightarrow> 'lsa connection_handler" where
  "recv_error_handler error_code h = disconnect_async False h"

text \<open>\<^verbatim>\<open>connection_handler::push_request\<close>.\<close>

definition push_request ::
  "'lsa request \<Rightarrow> 'lsa connection_handler
     \<Rightarrow> failure + (error_code \<times> 'lsa connection_handler)" where
  "push_request req h =
     (if m_state h \<noteq> CONNECTED then Inr (ER_CONN_PAGE_SERVER_CANNOT_BE_REACHED, h)
      else (case m_conn h of
          None \<Rightarrow> Inl Null_dereference
        | Some c \<Rightarrow> Inr (NO_ERROR, emit (Conn_push req) h)))"

text \<open>
  \<^verbatim>\<open>connection_handler::send_receive\<close>; \<open>error_code\<close> is what \<^verbatim>\<open>m_conn->send_recv\<close> returns.
\<close>

definition send_receive ::
  "'lsa request \<Rightarrow> css_error_code \<Rightarrow> 'lsa connection_handler
     \<Rightarrow> failure + (error_code \<times> 'lsa connection_handler)" where
  "send_receive req error_code h =
     (if m_state h \<noteq> CONNECTED then Inr (ER_CONN_PAGE_SERVER_CANNOT_BE_REACHED, h)
      else (case m_conn h of
          None \<Rightarrow> Inl Null_dereference
        | Some c \<Rightarrow>
            if error_code \<noteq> NO_ERRORS
            then Inr (ER_CONN_PAGE_SERVER_CANNOT_BE_REACHED, emit (Conn_send_recv req) h)
            else Inr (NO_ERROR, emit (Conn_send_recv req) h)))"

text \<open>
  Everything that can happen to one handler: the calls of its public interface, the
  messages of its page server, the error callbacks of its conn, and the started
  disconnection task getting to run.
\<close>

datatype 'lsa call =
    Connect "'lsa connect_env"
  | Disconnect_async bool
  | Wait_async_disconnection
  | Disconnect_task_runs
  | Receive_saved_lsa 'lsa
  | Receive_catchup_complete
  | Receive_disconnect_request
  | Send_error css_error_code
  | Recv_error css_error_code
  | Push_request "'lsa request"
  | Send_receive "'lsa request" css_error_code

fun step ::
  "bool \<Rightarrow> int \<Rightarrow> 'lsa::linorder call \<Rightarrow> 'lsa connection_handler
     \<Rightarrow> failure + 'lsa connection_handler"
where
  "step NDEBUG conn_type (Connect env) h = map_sum id snd (connect NDEBUG conn_type env h)"
| "step NDEBUG conn_type (Disconnect_async b) h = Inr (disconnect_async b h)"
| "step NDEBUG conn_type Wait_async_disconnection h = wait_async_disconnection NDEBUG conn_type h"
| "step NDEBUG conn_type Disconnect_task_runs h = run_disconnect_task NDEBUG conn_type h"
| "step NDEBUG conn_type (Receive_saved_lsa lsa) h = receive_saved_lsa NDEBUG lsa h"
| "step NDEBUG conn_type Receive_catchup_complete h = receive_catchup_complete NDEBUG h"
| "step NDEBUG conn_type Receive_disconnect_request h = Inr (receive_disconnect_request h)"
| "step NDEBUG conn_type (Send_error e) h = Inr (send_error_handler e h)"
| "step NDEBUG conn_type (Recv_error e) h = Inr (recv_error_handler e h)"
| "step NDEBUG conn_type (Push_request req) h = map_sum id snd (push_request req h)"
| "step NDEBUG conn_type (Send_receive req e) h = map_sum id snd (send_receive req e h)"

text \<open>A sequence of calls, stopped by the first failure.\<close>

fun run ::
  "bool \<Rightarrow> int \<Rightarrow> 'lsa::linorder call list \<Rightarrow> 'lsa connection_handler
     \<Rightarrow> failure + 'lsa connection_handler" where
  "run NDEBUG conn_type [] h = Inr h"
| "run NDEBUG conn_type (c # cs) h =
     (case step NDEBUG conn_type c h of
        Inl f \<Rightarrow> Inl f
      | Inr h' \<Rightarrow> run NDEBUG conn_type cs h')"

text \<open>The states assigned to \<^verbatim>\<open>m_state\<close>, in order.\<close>

fun states_assigned :: "'lsa effect list \<Rightarrow> state list" where
  "states_assigned [] = []"
| "states_assigned (Set_state s # es) = s # states_assigned es"
| "states_assigned (e # es) = states_assigned es"


text \<open>How many disconnection tasks were started.\<close>

definition teardowns_spawned :: "'lsa connection_handler \<Rightarrow> nat" where
  "teardowns_spawned h =
     length (filter (\<lambda>e. case e of Spawn_teardown b \<Rightarrow> True | _ \<Rightarrow> False) (effects h))"

section \<open>The transaction server\<close>

text \<open>
  \<^verbatim>\<open>tran_server\<close>: the vector of handlers, in registration order, and the main connection.
  \<^verbatim>\<open>m_main_conn\<close> points to a handler that the vector owns: it is the index of that handler,
  \<open>None\<close> for \<^verbatim>\<open>nullptr\<close>.
\<close>

record 'lsa tran_server =
  m_page_server_conn_vec :: "'lsa connection_handler list"
  m_main_conn :: "nat option"

text \<open>\<^verbatim>\<open>std::find_if\<close>: the position of the first element that satisfies \<open>P\<close>; \<open>None\<close> is \<^verbatim>\<open>cend ()\<close>.\<close>

fun find_if :: "('a \<Rightarrow> bool) \<Rightarrow> 'a list \<Rightarrow> nat option" where
  "find_if P [] = None"
| "find_if P (x # xs) = (if P x then Some 0 else map_option Suc (find_if P xs))"

text \<open>\<^verbatim>\<open>tran_server::reset_main_connection\<close>.\<close>

definition reset_main_connection :: "'lsa tran_server \<Rightarrow> error_code \<times> 'lsa tran_server" where
  "reset_main_connection ts =
     (case find_if is_connected (m_page_server_conn_vec ts) of
        None \<Rightarrow> (ER_CONN_NO_PAGE_SERVER_AVAILABLE, ts)
      | Some main_conn_cand \<Rightarrow>
          (NO_ERROR,
           if m_main_conn ts \<noteq> Some main_conn_cand
           then ts\<lparr>m_main_conn := Some main_conn_cand\<rparr> else ts))"

text \<open>
  The request paths run while other threads connect and disconnect the handlers. The caller
  sees the handlers each time it takes a lock: \<open>world t\<close> is the handler vector as it is at the
  \<open>t\<close>-th look. One turn of the loop looks three times: for the call on the main connection,
  for \<^verbatim>\<open>is_connected ()\<close>, and inside \<^verbatim>\<open>reset_main_connection\<close>. The main connection is
  written by the caller's own \<^verbatim>\<open>reset_main_connection\<close> only.
\<close>

type_synonym 'lsa world = "nat \<Rightarrow> 'lsa connection_handler list"

text \<open>
  The handler that a pointer into the vector points to. The vector never shrinks, so a
  position outside it is not a pointer that the server can hold.
\<close>

definition handler_at ::
  "'lsa connection_handler list \<Rightarrow> nat \<Rightarrow> failure + 'lsa connection_handler" where
  "handler_at vec i = (if i < length vec then Inr (vec ! i) else Inl Null_dereference)"

text \<open>What a request path did, in order: the calls on handlers and the rotations.\<close>

datatype ts_event =
    Handler_call nat error_code
  | Reset_main_connection error_code

text \<open>How one turn of the loop ends: with \<^verbatim>\<open>break\<close> or \<^verbatim>\<open>return\<close>, or going round again.\<close>

datatype 'a turn = Leave 'a | Again "nat option" | Stopped failure

text \<open>
  One turn of the loop of \<^verbatim>\<open>tran_server::push_request\<close> or \<^verbatim>\<open>tran_server::send_receive\<close>, which
  differ in the call on the handler (\<open>call\<close>, told the time of the look) and in what they hand
  back. It yields the error code in \<^verbatim>\<open>err_code\<close> when the loop is left, and the events of the
  turn. \<^verbatim>\<open>m_main_conn\<close> is dereferenced with no test for \<^verbatim>\<open>nullptr\<close>.
\<close>

definition request_turn ::
  "(nat \<Rightarrow> 'lsa connection_handler \<Rightarrow> failure + (error_code \<times> 'lsa connection_handler))
     \<Rightarrow> 'lsa world \<Rightarrow> nat \<Rightarrow> nat option \<Rightarrow> error_code turn \<times> ts_event list" where
  "request_turn call world t main =
     (case main of
        None \<Rightarrow> (Stopped Null_dereference, [])
      | Some i \<Rightarrow>
     (case handler_at (world t) i of
        Inl f \<Rightarrow> (Stopped f, [])
      | Inr h \<Rightarrow>
          (case call t h of
             Inl f \<Rightarrow> (Stopped f, [])
           | Inr (err_code, h') \<Rightarrow>
               (case handler_at (world (t + 1)) i of
                  Inl f \<Rightarrow> (Stopped f, [Handler_call i err_code])
                | Inr h1 \<Rightarrow>
                    if err_code \<noteq> NO_ERROR \<and> \<not> is_connected h1
                    then (case reset_main_connection
                                 \<lparr>m_page_server_conn_vec = world (t + 2), m_main_conn = main\<rparr> of
                        (err_code2, ts') \<Rightarrow>
                          if err_code2 = ER_CONN_NO_PAGE_SERVER_AVAILABLE
                          then (Leave err_code2,
                                [Handler_call i err_code, Reset_main_connection err_code2])
                          else (Again (m_main_conn ts'),
                                [Handler_call i err_code, Reset_main_connection err_code2]))
                    else (Leave err_code, [Handler_call i err_code])))))"

text \<open>
  The loop. It need not end (a world can take every new main connection down again), so the
  result is optional: \<open>None\<close> is a loop that runs forever. It returns the last error code,
  the main connection and the events.
\<close>

partial_function (option) request_loop ::
  "(nat \<Rightarrow> 'lsa connection_handler \<Rightarrow> failure + (error_code \<times> 'lsa connection_handler))
     \<Rightarrow> 'lsa world \<Rightarrow> nat \<Rightarrow> nat option \<Rightarrow> ts_event list
     \<Rightarrow> (failure + (error_code \<times> nat option \<times> ts_event list)) option" where
  "request_loop call world t main events =
     (case request_turn call world t main of
        (Stopped f, evs) \<Rightarrow> Some (Inl f)
      | (Leave err_code, evs) \<Rightarrow> Some (Inr (err_code, main, events @ evs))
      | (Again main', evs) \<Rightarrow> request_loop call world (t + 3) main' (events @ evs))"

text \<open>
  \<^verbatim>\<open>tran_server::push_request\<close> returns nothing: the error code is dropped, what is left is the
  main connection and the events.
\<close>

definition ts_push_request ::
  "'lsa request \<Rightarrow> 'lsa world \<Rightarrow> nat \<Rightarrow> nat option
     \<Rightarrow> (failure + (nat option \<times> ts_event list)) option" where
  "ts_push_request reqid world t main =
     map_option (map_sum id snd) (request_loop (\<lambda>t. push_request reqid) world t main [])"

text \<open>
  \<^verbatim>\<open>tran_server::send_receive\<close> returns \<^verbatim>\<open>err_code\<close>; \<open>chn t\<close> is what \<^verbatim>\<open>send_recv\<close> of the
  conn returns to a call made at time \<open>t\<close>.
\<close>

definition ts_send_receive ::
  "'lsa request \<Rightarrow> (nat \<Rightarrow> css_error_code) \<Rightarrow> 'lsa world \<Rightarrow> nat \<Rightarrow> nat option
     \<Rightarrow> (failure + (error_code \<times> nat option \<times> ts_event list)) option" where
  "ts_send_receive reqid chn world t main =
     request_loop (\<lambda>t. send_receive reqid (chn t)) world t main []"

section \<open>Notions used in the properties\<close>

text \<open>
  A handshake fails when the channel's \<^verbatim>\<open>connect\<close>, \<^verbatim>\<open>send_int\<close> or \<^verbatim>\<open>recv_int\<close> fails, or
  when the integer echoed is not the connection type.
\<close>

definition handshake_failed :: "int \<Rightarrow> 'lsa connect_env \<Rightarrow> bool" where
  "handshake_failed conn_type env =
     (chn_connect env \<noteq> NO_ERRORS \<or> chn_send_int env \<noteq> NO_ERRORS
      \<or> chn_recv_int env \<noteq> NO_ERRORS \<or> returned_code env \<noteq> conn_type)"


text \<open>
  What holds of a handler between calls when no assertion fails: it has a conn exactly when
  it is not \<^verbatim>\<open>IDLE\<close>, it is \<^verbatim>\<open>DISCONNECTING\<close> exactly while a disconnection task waits to run,
  and an \<^verbatim>\<open>IDLE\<close> handler has no sink registered.
\<close>

definition well_formed :: "'lsa connection_handler \<Rightarrow> bool" where
  "well_formed h =
     ((m_state h = IDLE) = (m_conn h = None)
      \<and> (m_state h = DISCONNECTING) = (\<exists>b. m_disconn_future h = Some (Running b))
      \<and> (m_state h = IDLE \<longrightarrow> \<not> m_prior_sender_sink_hook_func h))"

text \<open>Inputs for the examples.\<close>

definition example_node :: node where
  "example_node = \<lparr>host = ''ps'', port = 7001\<rparr>"


definition handshake ::
  "css_error_code \<Rightarrow> css_error_code \<Rightarrow> css_error_code \<Rightarrow> int \<Rightarrow> int connect_env" where
  "handshake c s r code =
     \<lparr>chn_connect = c, chn_send_int = s, chn_recv_int = r, returned_code = code,
      unsent_lsa = - 1, unsent_lsa_is_null = True, main_conn_node = None\<rparr>"


text \<open>A handler in a given state with a given saved LSA, for the worked examples.\<close>

definition handler_with :: "state \<Rightarrow> int \<Rightarrow> int connection_handler" where
  "handler_with st lsa = (new_connection_handler (- 1) \<lparr>host = ''ps'', port = 7001\<rparr>)
     \<lparr>m_state := st, m_saved_lsa := lsa\<rparr>"

section \<open>Properties of the consensus LSA\<close>







section \<open>Properties of the host string parsing\<close>












section \<open>Properties of the main connection\<close>

lemma find_if_None: "(find_if P xs = None) = (\<forall>x \<in> set xs. \<not> P x)"
  by (induction xs) auto

lemma find_if_Some:
  "find_if P xs = Some i \<Longrightarrow> i < length xs \<and> P (xs ! i) \<and> (\<forall>j < i. \<not> P (xs ! j))"
proof (induction xs arbitrary: i)
  case Nil
  then show ?case by simp
next
  case (Cons x xs)
  show ?case
  proof (cases "P x")
    case True
    with Cons.prems show ?thesis by simp
  next
    case False
    with Cons.prems obtain k where k: "find_if P xs = Some k" and i: "i = Suc k"
      by auto
    from Cons.IH [OF k] False i show ?thesis
      by (auto simp: less_Suc_eq_0_disj)
  qed
qed

lemma reset_main_connection_none:
  "\<forall>h \<in> set (m_page_server_conn_vec ts). \<not> is_connected h \<Longrightarrow>
   reset_main_connection ts = (ER_CONN_NO_PAGE_SERVER_AVAILABLE, ts)"
  by (simp add: reset_main_connection_def find_if_None [symmetric])

lemma reset_main_connection_some:
  "find_if is_connected (m_page_server_conn_vec ts) = Some i \<Longrightarrow>
   reset_main_connection ts = (NO_ERROR, ts\<lparr>m_main_conn := Some i\<rparr>)"
  by (cases "m_main_conn ts = Some i") (auto simp: reset_main_connection_def)

lemma reset_main_connection_first:
  assumes "\<exists>h \<in> set (m_page_server_conn_vec ts). is_connected h"
  shows "\<exists>i < length (m_page_server_conn_vec ts).
      is_connected (m_page_server_conn_vec ts ! i)
      \<and> (\<forall>j < i. \<not> is_connected (m_page_server_conn_vec ts ! j))
      \<and> reset_main_connection ts = (NO_ERROR, ts\<lparr>m_main_conn := Some i\<rparr>)"
proof -
  from assms have "find_if is_connected (m_page_server_conn_vec ts) \<noteq> None"
    by (simp add: find_if_None)
  then obtain i where i: "find_if is_connected (m_page_server_conn_vec ts) = Some i"
    by auto
  from find_if_Some [OF i] reset_main_connection_some [OF i] show ?thesis
    by blast
qed

text \<open>
  C3, as the code has it. \<^verbatim>\<open>reset_main_connection\<close> makes the first handler in registration
  order that is connected the main connection and returns \<^verbatim>\<open>NO_ERROR\<close>; when no handler is
  connected it returns \<^verbatim>\<open>ER_CONN_NO_PAGE_SERVER_AVAILABLE\<close> and leaves the server, and with it
  the main connection, as it was. With handlers \<open>[H0, H1, H2]\<close> of which \<open>H1\<close> and \<open>H2\<close> are
  connected it selects \<open>H1\<close>; once \<open>H1\<close> is disconnected and \<open>H0\<close> connected it selects \<open>H0\<close>.
\<close>

theorem reset_main_connection_first_connected:
  "((\<exists>h \<in> set (m_page_server_conn_vec ts). is_connected h) \<longrightarrow>
      (\<exists>i < length (m_page_server_conn_vec ts).
         is_connected (m_page_server_conn_vec ts ! i)
         \<and> (\<forall>j < i. \<not> is_connected (m_page_server_conn_vec ts ! j))
         \<and> reset_main_connection ts = (NO_ERROR, ts\<lparr>m_main_conn := Some i\<rparr>)))
   \<and> ((\<forall>h \<in> set (m_page_server_conn_vec ts). \<not> is_connected h) \<longrightarrow>
      reset_main_connection ts = (ER_CONN_NO_PAGE_SERVER_AVAILABLE, ts))
   \<and> reset_main_connection
       \<lparr>m_page_server_conn_vec =
          [handler_with IDLE 3, handler_with CONNECTED 4, handler_with CONNECTED 5],
        m_main_conn = None\<rparr>
      = (NO_ERROR,
         \<lparr>m_page_server_conn_vec =
            [handler_with IDLE 3, handler_with CONNECTED 4, handler_with CONNECTED 5],
          m_main_conn = Some 1\<rparr>)
   \<and> reset_main_connection
       \<lparr>m_page_server_conn_vec =
          [handler_with CONNECTED 3, handler_with IDLE 4, handler_with CONNECTED 5],
        m_main_conn = Some 1\<rparr>
      = (NO_ERROR,
         \<lparr>m_page_server_conn_vec =
            [handler_with CONNECTED 3, handler_with IDLE 4, handler_with CONNECTED 5],
          m_main_conn = Some 0\<rparr>)"
proof (intro conjI impI)
  assume "\<exists>h \<in> set (m_page_server_conn_vec ts). is_connected h"
  then show "\<exists>i < length (m_page_server_conn_vec ts).
         is_connected (m_page_server_conn_vec ts ! i)
         \<and> (\<forall>j < i. \<not> is_connected (m_page_server_conn_vec ts ! j))
         \<and> reset_main_connection ts = (NO_ERROR, ts\<lparr>m_main_conn := Some i\<rparr>)"
    by (rule reset_main_connection_first)
next
  assume "\<forall>h \<in> set (m_page_server_conn_vec ts). \<not> is_connected h"
  then show "reset_main_connection ts = (ER_CONN_NO_PAGE_SERVER_AVAILABLE, ts)"
    by (rule reset_main_connection_none)
qed (simp_all add: reset_main_connection_def is_connected_def handler_with_def
       new_connection_handler_def)

theorem reset_main_connection_first_connected_witness:
  "is_connected (handler_with CONNECTED 4)
   \<and> \<not> is_connected (handler_with IDLE 3) \<and> \<not> is_connected (handler_with DISCONNECTING 4)
   \<and> fst (reset_main_connection
        \<lparr>m_page_server_conn_vec = [handler_with IDLE 3, handler_with CONNECTED 4],
         m_main_conn = None\<rparr>) = NO_ERROR
   \<and> reset_main_connection
        \<lparr>m_page_server_conn_vec = [handler_with IDLE 3, handler_with DISCONNECTING 4],
         m_main_conn = Some 1\<rparr>
      = (ER_CONN_NO_PAGE_SERVER_AVAILABLE,
         \<lparr>m_page_server_conn_vec = [handler_with IDLE 3, handler_with DISCONNECTING 4],
          m_main_conn = Some 1\<rparr>)"
proof -
  have c: "\<exists>h \<in> set [handler_with IDLE 3, handler_with CONNECTED 4]. is_connected h"
    by (simp add: is_connected_def handler_with_def new_connection_handler_def)
  have n: "\<forall>h \<in> set [handler_with IDLE 3, handler_with DISCONNECTING 4]. \<not> is_connected h"
    by (simp add: is_connected_def handler_with_def new_connection_handler_def)
  from c n
    reset_main_connection_first_connected
      [of "\<lparr>m_page_server_conn_vec = [handler_with IDLE 3, handler_with CONNECTED 4],
            m_main_conn = None\<rparr>"]
    reset_main_connection_first_connected
      [of "\<lparr>m_page_server_conn_vec = [handler_with IDLE 3, handler_with DISCONNECTING 4],
            m_main_conn = Some 1\<rparr>"]
  show ?thesis by auto
qed

text \<open>
  The claim as the specification states it fails where it has the main connection set to
  null: with the only handler disconnected and the main connection pointing to it, the
  pointer is the same after the call.
\<close>

theorem reset_main_connection_counterexample:
  "fst (reset_main_connection
          \<lparr>m_page_server_conn_vec = [handler_with IDLE 3], m_main_conn = Some 0\<rparr>)
     = ER_CONN_NO_PAGE_SERVER_AVAILABLE
   \<and> m_main_conn (snd (reset_main_connection
          \<lparr>m_page_server_conn_vec = [handler_with IDLE 3], m_main_conn = Some 0\<rparr>))
     \<noteq> None"
  by (simp add: reset_main_connection_def is_connected_def handler_with_def
      new_connection_handler_def)

section \<open>Properties of the request paths\<close>

lemma request_loop_leave:
  "request_turn call world t main = (Leave e, evs) \<Longrightarrow>
   request_loop call world t main events = Some (Inr (e, main, events @ evs))"
  by (subst request_loop.simps) simp

lemma request_loop_again:
  "request_turn call world t main = (Again main', evs) \<Longrightarrow>
   request_loop call world t main events = request_loop call world (t + 3) main' (events @ evs)"
  by (subst request_loop.simps) simp

lemma request_loop_stopped:
  "request_turn call world t main = (Stopped f, evs) \<Longrightarrow>
   request_loop call world t main events = Some (Inl f)"
  by (subst request_loop.simps) simp

lemma request_turn_no_server:
  assumes "i < length (world t)" "i < length (world (t + 1))"
    and "call t (world t ! i) = Inr (err, h')" "err \<noteq> NO_ERROR"
    and "\<not> is_connected (world (t + 1) ! i)"
    and "\<forall>x \<in> set (world (t + 2)). \<not> is_connected x"
  shows "request_turn call world t (Some i) =
    (Leave ER_CONN_NO_PAGE_SERVER_AVAILABLE,
     [Handler_call i err, Reset_main_connection ER_CONN_NO_PAGE_SERVER_AVAILABLE])"
  using assms by (simp add: request_turn_def handler_at_def reset_main_connection_none)

lemma request_turn_retry:
  assumes "i < length (world t)" "i < length (world (t + 1))"
    and "call t (world t ! i) = Inr (err, h')" "err \<noteq> NO_ERROR"
    and "\<not> is_connected (world (t + 1) ! i)"
    and "find_if is_connected (world (t + 2)) = Some j"
  shows "request_turn call world t (Some i) =
    (Again (Some j), [Handler_call i err, Reset_main_connection NO_ERROR])"
  using assms by (simp add: request_turn_def handler_at_def reset_main_connection_some)

lemma request_turn_still_connected:
  assumes "i < length (world t)" "i < length (world (t + 1))"
    and "call t (world t ! i) = Inr (err, h')"
    and "err = NO_ERROR \<or> is_connected (world (t + 1) ! i)"
  shows "request_turn call world t (Some i) = (Leave err, [Handler_call i err])"
  using assms by (auto simp: request_turn_def handler_at_def)


lemma push_request_not_connected:
  "m_state h \<noteq> CONNECTED \<Longrightarrow> push_request req h = Inr (ER_CONN_PAGE_SERVER_CANNOT_BE_REACHED, h)"
  by (simp add: push_request_def)

lemma send_receive_not_connected:
  "m_state h \<noteq> CONNECTED \<Longrightarrow>
   send_receive req e h = Inr (ER_CONN_PAGE_SERVER_CANNOT_BE_REACHED, h)"
  by (simp add: send_receive_def)

text \<open>
  C10. When \<^verbatim>\<open>reset_main_connection\<close> finds no connected handler it returns
  \<^verbatim>\<open>ER_CONN_NO_PAGE_SERVER_AVAILABLE\<close> and writes nothing: the main connection stored before
  is still stored. A \<^verbatim>\<open>push_request\<close> or \<^verbatim>\<open>send_receive\<close> of the server that comes next (with
  the handlers as they were) calls the handler that this pointer names, before it fails to
  rotate again.
\<close>

theorem reset_main_connection_keeps_main_conn:
  "(\<forall>h \<in> set (m_page_server_conn_vec ts). \<not> is_connected h) \<longrightarrow>
     reset_main_connection ts = (ER_CONN_NO_PAGE_SERVER_AVAILABLE, ts)
     \<and> m_main_conn (snd (reset_main_connection ts)) = m_main_conn ts
     \<and> (\<forall>i. m_main_conn ts = Some i \<and> i < length (m_page_server_conn_vec ts) \<longrightarrow>
          ts_push_request reqid (\<lambda>t. m_page_server_conn_vec ts) t
              (m_main_conn (snd (reset_main_connection ts)))
            = Some (Inr (Some i,
                [Handler_call i ER_CONN_PAGE_SERVER_CANNOT_BE_REACHED,
                 Reset_main_connection ER_CONN_NO_PAGE_SERVER_AVAILABLE]))
          \<and> ts_send_receive reqid chn (\<lambda>t. m_page_server_conn_vec ts) t
              (m_main_conn (snd (reset_main_connection ts)))
            = Some (Inr (ER_CONN_NO_PAGE_SERVER_AVAILABLE, Some i,
                [Handler_call i ER_CONN_PAGE_SERVER_CANNOT_BE_REACHED,
                 Reset_main_connection ER_CONN_NO_PAGE_SERVER_AVAILABLE])))"
proof (intro impI conjI allI)
  assume none: "\<forall>h \<in> set (m_page_server_conn_vec ts). \<not> is_connected h"
  then show r: "reset_main_connection ts = (ER_CONN_NO_PAGE_SERVER_AVAILABLE, ts)"
    by (rule reset_main_connection_none)
  then show "m_main_conn (snd (reset_main_connection ts)) = m_main_conn ts"
    by simp
  fix i
  assume "m_main_conn ts = Some i \<and> i < length (m_page_server_conn_vec ts)"
  then have main: "m_main_conn ts = Some i" and i: "i < length (m_page_server_conn_vec ts)"
    by simp_all
  let ?world = "\<lambda>t::nat. m_page_server_conn_vec ts"
  let ?h = "m_page_server_conn_vec ts ! i"
  from none i have nc: "\<not> is_connected ?h" by simp
  then have st: "m_state ?h \<noteq> CONNECTED" by (simp add: is_connected_def)
  have "request_turn (\<lambda>t. push_request reqid) ?world t (Some i) =
      (Leave ER_CONN_NO_PAGE_SERVER_AVAILABLE,
       [Handler_call i ER_CONN_PAGE_SERVER_CANNOT_BE_REACHED,
        Reset_main_connection ER_CONN_NO_PAGE_SERVER_AVAILABLE])"
    using i nc none push_request_not_connected [OF st]
    by (intro request_turn_no_server) simp_all
  then show "ts_push_request reqid ?world t (m_main_conn (snd (reset_main_connection ts)))
      = Some (Inr (Some i,
          [Handler_call i ER_CONN_PAGE_SERVER_CANNOT_BE_REACHED,
           Reset_main_connection ER_CONN_NO_PAGE_SERVER_AVAILABLE]))"
    by (simp add: ts_push_request_def r main request_loop_leave)
  have "request_turn (\<lambda>t. send_receive reqid (chn t)) ?world t (Some i) =
      (Leave ER_CONN_NO_PAGE_SERVER_AVAILABLE,
       [Handler_call i ER_CONN_PAGE_SERVER_CANNOT_BE_REACHED,
        Reset_main_connection ER_CONN_NO_PAGE_SERVER_AVAILABLE])"
    using i nc none send_receive_not_connected [OF st]
    by (intro request_turn_no_server) simp_all
  then show "ts_send_receive reqid chn ?world t (m_main_conn (snd (reset_main_connection ts)))
      = Some (Inr (ER_CONN_NO_PAGE_SERVER_AVAILABLE, Some i,
          [Handler_call i ER_CONN_PAGE_SERVER_CANNOT_BE_REACHED,
           Reset_main_connection ER_CONN_NO_PAGE_SERVER_AVAILABLE]))"
    by (simp add: ts_send_receive_def r main request_loop_leave)
qed

theorem reset_main_connection_keeps_main_conn_witness:
  "\<not> is_connected (handler_with IDLE 3) \<and> \<not> is_connected (handler_with DISCONNECTING 4)
   \<and> m_main_conn (snd (reset_main_connection
        \<lparr>m_page_server_conn_vec = [handler_with IDLE 3, handler_with DISCONNECTING 4],
         m_main_conn = Some 1\<rparr>)) = Some 1
   \<and> ts_push_request (OTHER_REQUEST 0 ''x'')
        (\<lambda>t. [handler_with IDLE 3, handler_with DISCONNECTING 4]) 0 (Some 1)
      = Some (Inr (Some 1,
          [Handler_call 1 ER_CONN_PAGE_SERVER_CANNOT_BE_REACHED,
           Reset_main_connection ER_CONN_NO_PAGE_SERVER_AVAILABLE]))"
proof -
  have n: "\<forall>h \<in> set [handler_with IDLE 3, handler_with DISCONNECTING 4]. \<not> is_connected h"
    by (simp add: is_connected_def handler_with_def new_connection_handler_def)
  from n reset_main_connection_keeps_main_conn
      [of "\<lparr>m_page_server_conn_vec = [handler_with IDLE 3, handler_with DISCONNECTING 4],
            m_main_conn = Some 1\<rparr>" "OTHER_REQUEST 0 ''x''" 0 "\<lambda>t. NO_ERRORS"]
  show ?thesis by auto
qed

text \<open>
  C8. A turn of \<^verbatim>\<open>push_request\<close> or \<^verbatim>\<open>send_receive\<close> of the server in which the call on the
  main connection fails: when the main connection is then not connected, both call
  \<^verbatim>\<open>reset_main_connection\<close>; if no handler is connected, \<^verbatim>\<open>push_request\<close> returns with no error
  to hand back and \<^verbatim>\<open>send_receive\<close> returns \<^verbatim>\<open>ER_CONN_NO_PAGE_SERVER_AVAILABLE\<close>; if a handler
  is connected, both go round again on the new main connection. When the main connection is
  still reported connected, neither calls \<^verbatim>\<open>reset_main_connection\<close> nor tries again, and
  \<^verbatim>\<open>send_receive\<close> returns the error of the call.
\<close>

theorem request_paths_error_propagation:
  "i < length (world t) \<and> i < length (world (t + 1)) \<longrightarrow>
    (push_request reqid (world t ! i) = Inr (err, h') \<and> err \<noteq> NO_ERROR \<longrightarrow>
       (\<not> is_connected (world (t + 1) ! i) \<and> (\<forall>x \<in> set (world (t + 2)). \<not> is_connected x) \<longrightarrow>
          ts_push_request reqid world t (Some i)
            = Some (Inr (Some i,
                [Handler_call i err, Reset_main_connection ER_CONN_NO_PAGE_SERVER_AVAILABLE])))
       \<and> (\<forall>j. \<not> is_connected (world (t + 1) ! i)
               \<and> find_if is_connected (world (t + 2)) = Some j \<longrightarrow>
          ts_push_request reqid world t (Some i)
            = map_option (map_sum id snd)
                (request_loop (\<lambda>t. push_request reqid) world (t + 3) (Some j)
                   [Handler_call i err, Reset_main_connection NO_ERROR]))
       \<and> (is_connected (world (t + 1) ! i) \<longrightarrow>
          ts_push_request reqid world t (Some i) = Some (Inr (Some i, [Handler_call i err]))))
    \<and> (send_receive reqid (chn t) (world t ! i) = Inr (err2, h2) \<and> err2 \<noteq> NO_ERROR \<longrightarrow>
       (\<not> is_connected (world (t + 1) ! i) \<and> (\<forall>x \<in> set (world (t + 2)). \<not> is_connected x) \<longrightarrow>
          ts_send_receive reqid chn world t (Some i)
            = Some (Inr (ER_CONN_NO_PAGE_SERVER_AVAILABLE, Some i,
                [Handler_call i err2, Reset_main_connection ER_CONN_NO_PAGE_SERVER_AVAILABLE])))
       \<and> (\<forall>j. \<not> is_connected (world (t + 1) ! i)
               \<and> find_if is_connected (world (t + 2)) = Some j \<longrightarrow>
          ts_send_receive reqid chn world t (Some i)
            = request_loop (\<lambda>t. send_receive reqid (chn t)) world (t + 3) (Some j)
                [Handler_call i err2, Reset_main_connection NO_ERROR])
       \<and> (is_connected (world (t + 1) ! i) \<longrightarrow>
          ts_send_receive reqid chn world t (Some i)
            = Some (Inr (err2, Some i, [Handler_call i err2]))))"
proof (intro impI conjI allI; (elim conjE)?)
  assume i: "i < length (world t)" "i < length (world (t + 1))"
    and c: "push_request reqid (world t ! i) = Inr (err, h')" "err \<noteq> NO_ERROR"
  {
    assume "\<not> is_connected (world (t + 1) ! i)" "\<forall>x \<in> set (world (t + 2)). \<not> is_connected x"
    with i c have "request_turn (\<lambda>t. push_request reqid) world t (Some i) =
        (Leave ER_CONN_NO_PAGE_SERVER_AVAILABLE,
         [Handler_call i err, Reset_main_connection ER_CONN_NO_PAGE_SERVER_AVAILABLE])"
      by (intro request_turn_no_server)
    then show "ts_push_request reqid world t (Some i)
            = Some (Inr (Some i,
                [Handler_call i err, Reset_main_connection ER_CONN_NO_PAGE_SERVER_AVAILABLE]))"
      by (simp add: ts_push_request_def request_loop_leave)
  }
  {
    fix j
    assume "\<not> is_connected (world (t + 1) ! i)" "find_if is_connected (world (t + 2)) = Some j"
    with i c have "request_turn (\<lambda>t. push_request reqid) world t (Some i) =
        (Again (Some j), [Handler_call i err, Reset_main_connection NO_ERROR])"
      by (intro request_turn_retry)
    then show "ts_push_request reqid world t (Some i)
            = map_option (map_sum id snd)
                (request_loop (\<lambda>t. push_request reqid) world (t + 3) (Some j)
                   [Handler_call i err, Reset_main_connection NO_ERROR])"
      by (simp add: ts_push_request_def request_loop_again)
  }
  {
    assume "is_connected (world (t + 1) ! i)"
    with i c have "request_turn (\<lambda>t. push_request reqid) world t (Some i) =
        (Leave err, [Handler_call i err])"
      by (intro request_turn_still_connected) simp_all
    then show "ts_push_request reqid world t (Some i) = Some (Inr (Some i, [Handler_call i err]))"
      by (simp add: ts_push_request_def request_loop_leave)
  }
next
  assume i: "i < length (world t)" "i < length (world (t + 1))"
    and c: "send_receive reqid (chn t) (world t ! i) = Inr (err2, h2)" "err2 \<noteq> NO_ERROR"
  {
    assume "\<not> is_connected (world (t + 1) ! i)" "\<forall>x \<in> set (world (t + 2)). \<not> is_connected x"
    with i c have "request_turn (\<lambda>t. send_receive reqid (chn t)) world t (Some i) =
        (Leave ER_CONN_NO_PAGE_SERVER_AVAILABLE,
         [Handler_call i err2, Reset_main_connection ER_CONN_NO_PAGE_SERVER_AVAILABLE])"
      by (intro request_turn_no_server)
    then show "ts_send_receive reqid chn world t (Some i)
            = Some (Inr (ER_CONN_NO_PAGE_SERVER_AVAILABLE, Some i,
                [Handler_call i err2, Reset_main_connection ER_CONN_NO_PAGE_SERVER_AVAILABLE]))"
      by (simp add: ts_send_receive_def request_loop_leave)
  }
  {
    fix j
    assume "\<not> is_connected (world (t + 1) ! i)" "find_if is_connected (world (t + 2)) = Some j"
    with i c have "request_turn (\<lambda>t. send_receive reqid (chn t)) world t (Some i) =
        (Again (Some j), [Handler_call i err2, Reset_main_connection NO_ERROR])"
      by (intro request_turn_retry)
    then show "ts_send_receive reqid chn world t (Some i)
            = request_loop (\<lambda>t. send_receive reqid (chn t)) world (t + 3) (Some j)
                [Handler_call i err2, Reset_main_connection NO_ERROR]"
      by (simp add: ts_send_receive_def request_loop_again)
  }
  {
    assume "is_connected (world (t + 1) ! i)"
    with i c have "request_turn (\<lambda>t. send_receive reqid (chn t)) world t (Some i) =
        (Leave err2, [Handler_call i err2])"
      by (intro request_turn_still_connected) simp_all
    then show "ts_send_receive reqid chn world t (Some i)
            = Some (Inr (err2, Some i, [Handler_call i err2]))"
      by (simp add: ts_send_receive_def request_loop_leave)
  }
qed


theorem request_paths_error_propagation_witness:
  "ts_push_request (OTHER_REQUEST 0 ''x'') (\<lambda>t. [handler_with IDLE 3 :: int connection_handler]) 0 (Some 0)
     = Some (Inr (Some 0,
         [Handler_call 0 ER_CONN_PAGE_SERVER_CANNOT_BE_REACHED,
          Reset_main_connection ER_CONN_NO_PAGE_SERVER_AVAILABLE]))
   \<and> ts_send_receive (OTHER_REQUEST 0 ''x'') (\<lambda>t. NO_ERRORS)
        (\<lambda>t. [handler_with IDLE 3 :: int connection_handler]) 0 (Some 0)
     = Some (Inr (ER_CONN_NO_PAGE_SERVER_AVAILABLE, Some 0,
         [Handler_call 0 ER_CONN_PAGE_SERVER_CANNOT_BE_REACHED,
          Reset_main_connection ER_CONN_NO_PAGE_SERVER_AVAILABLE]))
   \<and> ts_send_receive (OTHER_REQUEST 0 ''x'') (\<lambda>t. CONNECTION_CLOSED)
        (\<lambda>t. [(handler_with CONNECTED 3)\<lparr>m_conn := Some Page_server_conn\<rparr>]) 0 (Some 0)
     = Some (Inr (ER_CONN_PAGE_SERVER_CANNOT_BE_REACHED, Some 0,
         [Handler_call 0 ER_CONN_PAGE_SERVER_CANNOT_BE_REACHED]))
   \<and> ts_push_request (OTHER_REQUEST 0 ''x'')
        (\<lambda>t. if t = 0 then [handler_with CONNECTING 3] else [handler_with CONNECTED 3]) 0 (Some 0)
     = Some (Inr (Some 0, [Handler_call 0 ER_CONN_PAGE_SERVER_CANNOT_BE_REACHED]))
   \<and> ts_push_request (OTHER_REQUEST 0 ''x'')
        (\<lambda>t. [handler_with IDLE 3, (handler_with CONNECTED 4)\<lparr>m_conn := Some Page_server_conn\<rparr>])
        0 (Some 0)
     = Some (Inr (Some 1,
         [Handler_call 0 ER_CONN_PAGE_SERVER_CANNOT_BE_REACHED,
          Reset_main_connection NO_ERROR, Handler_call 1 NO_ERROR]))"
proof -
  let ?req = "OTHER_REQUEST 0 ''x'' :: int request"
  let ?idle = "\<lambda>t::nat. [handler_with IDLE 3]"
  let ?up = "\<lambda>t::nat. [(handler_with CONNECTED 3)\<lparr>m_conn := Some Page_server_conn\<rparr>]"
  let ?late = "\<lambda>t::nat. if t = 0 then [handler_with CONNECTING 3] else [handler_with CONNECTED 3]"
  note defs = push_request_def send_receive_def is_connected_def handler_with_def
    new_connection_handler_def emit_def
  from request_paths_error_propagation
      [of 0 ?idle 0 ?req ER_CONN_PAGE_SERVER_CANNOT_BE_REACHED "handler_with IDLE 3"
        "\<lambda>t. NO_ERRORS" ER_CONN_PAGE_SERVER_CANNOT_BE_REACHED "handler_with IDLE 3"]
  have a: "ts_push_request ?req ?idle 0 (Some 0)
     = Some (Inr (Some 0,
         [Handler_call 0 ER_CONN_PAGE_SERVER_CANNOT_BE_REACHED,
          Reset_main_connection ER_CONN_NO_PAGE_SERVER_AVAILABLE]))"
    and b: "ts_send_receive ?req (\<lambda>t. NO_ERRORS) ?idle 0 (Some 0)
     = Some (Inr (ER_CONN_NO_PAGE_SERVER_AVAILABLE, Some 0,
         [Handler_call 0 ER_CONN_PAGE_SERVER_CANNOT_BE_REACHED,
          Reset_main_connection ER_CONN_NO_PAGE_SERVER_AVAILABLE]))"
    by (simp_all add: defs)
  from request_paths_error_propagation
      [of 0 ?up 0 ?req NO_ERROR
        "emit (Conn_push ?req) ((handler_with CONNECTED 3)\<lparr>m_conn := Some Page_server_conn\<rparr>)"
        "\<lambda>t. CONNECTION_CLOSED" ER_CONN_PAGE_SERVER_CANNOT_BE_REACHED
        "emit (Conn_send_recv ?req) ((handler_with CONNECTED 3)\<lparr>m_conn := Some Page_server_conn\<rparr>)"]
  have c: "ts_send_receive ?req (\<lambda>t. CONNECTION_CLOSED) ?up 0 (Some 0)
     = Some (Inr (ER_CONN_PAGE_SERVER_CANNOT_BE_REACHED, Some 0,
         [Handler_call 0 ER_CONN_PAGE_SERVER_CANNOT_BE_REACHED]))"
    by (simp add: defs)
  from request_paths_error_propagation
      [of 0 ?late 0 ?req ER_CONN_PAGE_SERVER_CANNOT_BE_REACHED "handler_with CONNECTING 3"
        "\<lambda>t. NO_ERRORS" ER_CONN_PAGE_SERVER_CANNOT_BE_REACHED "handler_with CONNECTING 3"]
  have d: "ts_push_request ?req ?late 0 (Some 0)
     = Some (Inr (Some 0, [Handler_call 0 ER_CONN_PAGE_SERVER_CANNOT_BE_REACHED]))"
    by (simp add: defs)
  let ?up4 = "(handler_with CONNECTED 4)\<lparr>m_conn := Some Page_server_conn\<rparr>"
  let ?two = "\<lambda>t::nat. [handler_with IDLE 3, ?up4]"
  have turn: "request_turn (\<lambda>t. push_request ?req) ?two 3 (Some 1)
      = (Leave NO_ERROR, [Handler_call 1 NO_ERROR])"
    by (rule request_turn_still_connected [where h' = "emit (Conn_push ?req) ?up4"])
      (simp_all add: defs)
  from request_paths_error_propagation
      [of 0 ?two 0 ?req ER_CONN_PAGE_SERVER_CANNOT_BE_REACHED "handler_with IDLE 3"
        "\<lambda>t. NO_ERRORS" ER_CONN_PAGE_SERVER_CANNOT_BE_REACHED "handler_with IDLE 3"]
  have "ts_push_request ?req ?two 0 (Some 0)
      = map_option (map_sum id snd)
          (request_loop (\<lambda>t. push_request ?req) ?two 3 (Some 1)
             [Handler_call 0 ER_CONN_PAGE_SERVER_CANNOT_BE_REACHED,
              Reset_main_connection NO_ERROR])"
    by (simp add: defs)
  moreover have "request_loop (\<lambda>t. push_request ?req) ?two 3 (Some 1)
             [Handler_call 0 ER_CONN_PAGE_SERVER_CANNOT_BE_REACHED,
              Reset_main_connection NO_ERROR]
      = Some (Inr (NO_ERROR, Some 1,
          [Handler_call 0 ER_CONN_PAGE_SERVER_CANNOT_BE_REACHED,
           Reset_main_connection NO_ERROR] @ [Handler_call 1 NO_ERROR]))"
    by (rule request_loop_leave [OF turn])
  ultimately have e: "ts_push_request ?req ?two 0 (Some 0)
     = Some (Inr (Some 1,
         [Handler_call 0 ER_CONN_PAGE_SERVER_CANNOT_BE_REACHED,
          Reset_main_connection NO_ERROR, Handler_call 1 NO_ERROR]))"
    by simp
  from a b c d e show ?thesis by simp
qed

section \<open>Properties of the connection handler\<close>

lemmas handler_defs =
  connect_def ps_conn_error_lambda_def set_connection_def transition_to_connected_def
  send_start_catch_up_request_def push_request_regardless_of_state_def
  get_main_connection_info_def set_state_def emit_def assert_fails_def disconnect_async_def
  disconnect_task_def on_disconnecting_def run_disconnect_task_def wait_async_disconnection_def
  receive_saved_lsa_def receive_catchup_complete_def receive_disconnect_request_def
  send_error_handler_def recv_error_handler_def push_request_def send_receive_def
  get_saved_lsa_def

lemma connect_failure:
  assumes "handshake_failed conn_type env" "NDEBUG \<or> m_state h = IDLE"
  shows "connect NDEBUG conn_type env h =
     Inr (ER_NET_PAGESERVER_CONNECTION,
          h\<lparr>m_state := IDLE, effects := effects h @ [Set_state CONNECTING, Set_state IDLE]\<rparr>)"
  using assms
  by (auto simp: connect_def ps_conn_error_lambda_def set_state_def emit_def assert_fails_def
      handshake_failed_def Let_def)

lemma connect_result:
  assumes "connect NDEBUG conn_type env h = Inr (code, h')"
  shows "(code = ER_NET_PAGESERVER_CONNECTION \<and> handshake_failed conn_type env \<and> m_state h' = IDLE)
       \<or> (code = NO_ERROR \<and> \<not> handshake_failed conn_type env)"
  using assms
  by (auto simp: connect_def ps_conn_error_lambda_def set_state_def emit_def 
      handshake_failed_def Let_def split: if_splits sum.splits)



lemma states_assigned_append [simp]:
  "states_assigned (xs @ ys) = states_assigned xs @ states_assigned ys"
  by (induction xs rule: states_assigned.induct) simp_all
























lemma step_saved_lsa_mono:
  assumes "step NDEBUG conn_type c h = Inr h'"
  shows "m_saved_lsa h \<le> m_saved_lsa h'"
  using assms
  by (cases c)
    (auto simp: handler_defs Let_def
      split: if_splits sum.splits option.splits prod.splits disconn_future.splits)

lemma run_saved_lsa_mono:
  "run NDEBUG conn_type cs h = Inr h' \<Longrightarrow> m_saved_lsa h \<le> m_saved_lsa h'"
proof (induction cs arbitrary: h)
  case Nil
  then show ?case by simp
next
  case (Cons c cs)
  then obtain h1 where s: "step NDEBUG conn_type c h = Inr h1"
    and r: "run NDEBUG conn_type cs h1 = Inr h'"
    by (auto split: sum.splits)
  from step_saved_lsa_mono [OF s] Cons.IH [OF r] show ?case by simp
qed

lemma step_well_formed:
  assumes "step False conn_type c h = Inr h'" "well_formed h"
  shows "well_formed h'"
  using assms
  by (cases c)
    (auto simp: handler_defs Let_def well_formed_def
      split: if_splits sum.splits option.splits prod.splits disconn_future.splits)

lemma run_well_formed:
  "run False conn_type cs h = Inr h' \<Longrightarrow> well_formed h \<Longrightarrow> well_formed h'"
proof (induction cs arbitrary: h)
  case Nil
  then show ?case by simp
next
  case (Cons c cs)
  from Cons.prems(1) obtain h1 where s: "step False conn_type c h = Inr h1"
    and r: "run False conn_type cs h1 = Inr h'"
    by (auto split: sum.splits)
  from Cons.IH [OF r step_well_formed [OF s Cons.prems(2)]] show ?case .
qed

lemma well_formed_new: "well_formed (new_connection_handler NULL_LSA nd)"
  by (simp add: well_formed_def new_connection_handler_def)

lemma disconnect_async_noop:
  "m_state h = IDLE \<or> m_state h = DISCONNECTING \<Longrightarrow> disconnect_async b h = h"
  by (simp add: disconnect_async_def)

lemma disconnect_async_twice:
  assumes "m_state h = CONNECTED \<or> m_state h = CONNECTING"
  shows "disconnect_async b2 (disconnect_async b1 h) = disconnect_async b1 h
     \<and> teardowns_spawned (disconnect_async b2 (disconnect_async b1 h)) = teardowns_spawned h + 1
     \<and> m_state (disconnect_async b1 h) = DISCONNECTING
     \<and> m_disconn_future (disconnect_async b1 h) = Some (Running b1)"
  using assms
  by (auto simp: disconnect_async_def set_state_def emit_def teardowns_spawned_def)

lemma wait_async_disconnection_idle:
  "wait_async_disconnection False conn_type h = Inr h' \<Longrightarrow> m_state h' = IDLE"
  by (auto simp: wait_async_disconnection_def assert_fails_def split: sum.splits if_splits)

lemma wait_after_disconnect:
  assumes "m_state h = CONNECTED \<or> m_state h = CONNECTING" "m_conn h \<noteq> None"
  shows "\<exists>h'. wait_async_disconnection NDEBUG conn_type (disconnect_async b h) = Inr h'
     \<and> m_state h' = IDLE \<and> m_disconn_future h' = None \<and> m_conn h' = None"
  using assms
  by (auto simp: handler_defs Let_def)

text \<open>
  C7. Whenever the handshake fails (the channel's \<^verbatim>\<open>connect\<close>, \<^verbatim>\<open>send_int\<close> or \<^verbatim>\<open>recv_int\<close>
  fails, or the integer echoed differs from the connection type), \<^verbatim>\<open>connect\<close> on an \<^verbatim>\<open>IDLE\<close>
  handler returns \<^verbatim>\<open>ER_NET_PAGESERVER_CONNECTION\<close> with the state back at \<^verbatim>\<open>IDLE\<close> and nothing
  else of the handler changed; and \<^verbatim>\<open>connect\<close> returns \<^verbatim>\<open>ER_NET_PAGESERVER_CONNECTION\<close> in
  those cases only (otherwise it returns \<^verbatim>\<open>NO_ERROR\<close>).
\<close>

theorem connect_failure_atomic:
  "(handshake_failed conn_type env \<and> (NDEBUG \<or> m_state h = IDLE) \<longrightarrow>
      connect NDEBUG conn_type env h =
        Inr (ER_NET_PAGESERVER_CONNECTION,
             h\<lparr>m_state := IDLE, effects := effects h @ [Set_state CONNECTING, Set_state IDLE]\<rparr>))
   \<and> (connect NDEBUG conn_type env h = Inr (code, h') \<longrightarrow>
        (code = ER_NET_PAGESERVER_CONNECTION \<and> handshake_failed conn_type env \<and> m_state h' = IDLE)
        \<or> (code = NO_ERROR \<and> \<not> handshake_failed conn_type env))"
  using connect_failure [of conn_type env NDEBUG h] connect_result [of NDEBUG conn_type env h code h']
  by blast

theorem connect_failure_atomic_witness:
  "handshake_failed 1 (handshake NO_ERRORS NO_ERRORS NO_ERRORS 2)
   \<and> m_state (new_connection_handler (- 1 :: int) example_node) = IDLE
   \<and> connect False 1 (handshake NO_ERRORS NO_ERRORS NO_ERRORS 2)
        (new_connection_handler (- 1) example_node)
      = Inr (ER_NET_PAGESERVER_CONNECTION,
             (new_connection_handler (- 1) example_node)
               \<lparr>m_state := IDLE, effects := [Set_state CONNECTING, Set_state IDLE]\<rparr>)"
  using connect_failure_atomic
    [of 1 "handshake NO_ERRORS NO_ERRORS NO_ERRORS 2" False
      "new_connection_handler (- 1) example_node"]
  by (simp add: handshake_failed_def handshake_def new_connection_handler_def)






text \<open>
  C6. \<^verbatim>\<open>disconnect_async\<close> on an \<^verbatim>\<open>IDLE\<close> or \<^verbatim>\<open>DISCONNECTING\<close> handler returns the handler as
  it was: no state change, no task started. Called twice on a \<^verbatim>\<open>CONNECTED\<close> handler it
  starts one task, and the second call changes nothing. When \<^verbatim>\<open>wait_async_disconnection\<close>
  returns, the state is \<^verbatim>\<open>IDLE\<close>; and after the two calls on a \<^verbatim>\<open>CONNECTED\<close> handler that has
  its conn, as every handler reached from a new one has, it does return.
\<close>

theorem disconnect_async_idempotent:
  "(m_state h = IDLE \<or> m_state h = DISCONNECTING \<longrightarrow> disconnect_async b h = h)
   \<and> (m_state h = CONNECTED \<longrightarrow>
        disconnect_async b2 (disconnect_async b1 h) = disconnect_async b1 h
        \<and> teardowns_spawned (disconnect_async b2 (disconnect_async b1 h))
            = teardowns_spawned h + 1
        \<and> m_state (disconnect_async b1 h) = DISCONNECTING
        \<and> m_disconn_future (disconnect_async b1 h) = Some (Running b1))
   \<and> (wait_async_disconnection False conn_type h = Inr h' \<longrightarrow> m_state h' = IDLE)
   \<and> (m_state h = CONNECTED \<and> m_conn h \<noteq> None \<longrightarrow>
        (\<exists>h'. wait_async_disconnection NDEBUG conn_type
                 (disconnect_async b2 (disconnect_async b1 h)) = Inr h'
           \<and> m_state h' = IDLE \<and> m_disconn_future h' = None \<and> m_conn h' = None))
   \<and> (run False conn_type calls (new_connection_handler NULL_LSA nd) = Inr h
        \<and> m_state h = CONNECTED \<longrightarrow> m_conn h \<noteq> None)"
proof (intro conjI impI)
  assume "m_state h = IDLE \<or> m_state h = DISCONNECTING"
  then show "disconnect_async b h = h" by (rule disconnect_async_noop)
next
  assume c: "m_state h = CONNECTED"
  then have "m_state h = CONNECTED \<or> m_state h = CONNECTING" by simp
  note twice = disconnect_async_twice [OF this, of b2 b1]
  from twice show "disconnect_async b2 (disconnect_async b1 h) = disconnect_async b1 h"
    by blast
  from twice
  show "teardowns_spawned (disconnect_async b2 (disconnect_async b1 h)) = teardowns_spawned h + 1"
    by blast
  from twice show "m_state (disconnect_async b1 h) = DISCONNECTING"
    by blast
  from twice show "m_disconn_future (disconnect_async b1 h) = Some (Running b1)"
    by blast
next
  assume "wait_async_disconnection False conn_type h = Inr h'"
  then show "m_state h' = IDLE" by (rule wait_async_disconnection_idle)
next
  assume a: "m_state h = CONNECTED \<and> m_conn h \<noteq> None"
  then have s: "m_state h = CONNECTED \<or> m_state h = CONNECTING" and m: "m_conn h \<noteq> None"
    by simp_all
  from disconnect_async_twice [OF s, of b2 b1]
  have "disconnect_async b2 (disconnect_async b1 h) = disconnect_async b1 h" by simp
  with wait_after_disconnect [OF s m, of NDEBUG conn_type b1]
  show "\<exists>h'. wait_async_disconnection NDEBUG conn_type
                 (disconnect_async b2 (disconnect_async b1 h)) = Inr h'
           \<and> m_state h' = IDLE \<and> m_disconn_future h' = None \<and> m_conn h' = None"
    by simp
next
  assume a: "run False conn_type calls (new_connection_handler NULL_LSA nd) = Inr h
        \<and> m_state h = CONNECTED"
  then have "well_formed h"
    using run_well_formed [OF _ well_formed_new] by blast
  with a show "m_conn h \<noteq> None" by (auto simp: well_formed_def)
qed

theorem disconnect_async_idempotent_witness:
  "\<exists>h h'. run False 1
         [Connect (handshake NO_ERRORS NO_ERRORS NO_ERRORS 1), Receive_catchup_complete]
         (new_connection_handler (- 1) example_node) = Inr h
     \<and> m_state h = CONNECTED
     \<and> teardowns_spawned h = 0
     \<and> teardowns_spawned (disconnect_async False (disconnect_async True h)) = 1
     \<and> wait_async_disconnection False 1 (disconnect_async False (disconnect_async True h))
        = Inr h'
     \<and> m_state h' = IDLE"
proof -
  let ?calls = "[Connect (handshake NO_ERRORS NO_ERRORS NO_ERRORS 1), Receive_catchup_complete]"
  let ?h0 = "new_connection_handler (- 1 :: int) example_node"
  obtain h where r: "run False 1 ?calls ?h0 = Inr h"
    and s: "m_state h = CONNECTED" and t: "teardowns_spawned h = 0"
    by (simp add: handler_defs handshake_def new_connection_handler_def teardowns_spawned_def)
  note inst = disconnect_async_idempotent
    [of h True False True 1 _ False ?calls "- 1" example_node]
  from inst r s have m: "m_conn h \<noteq> None" by blast
  from inst s
  have "teardowns_spawned (disconnect_async False (disconnect_async True h))
      = teardowns_spawned h + 1"
    by blast
  with t have n: "teardowns_spawned (disconnect_async False (disconnect_async True h)) = 1"
    by simp
  from inst s m obtain h' where
    "wait_async_disconnection False 1 (disconnect_async False (disconnect_async True h)) = Inr h'"
    "m_state h' = IDLE"
    by blast
  with r s t n show ?thesis by blast
qed

text \<open>
  C9. A new handler has \<^verbatim>\<open>NULL_LSA\<close> as its saved LSA, and nothing that happens to a handler
  lowers it. \<^verbatim>\<open>receive_saved_lsa\<close> asserts that the LSA received is not below the one stored
  (with assertions compiled out a lower one is ignored); an equal one changes nothing; a
  greater one is stored and the flush waiters are woken.
\<close>

theorem saved_lsa_monotone:
  "m_saved_lsa (new_connection_handler NULL_LSA nd) = NULL_LSA
   \<and> (step NDEBUG conn_type c h = Inr h' \<longrightarrow> m_saved_lsa h \<le> m_saved_lsa h')
   \<and> (run NDEBUG conn_type calls h = Inr h'' \<longrightarrow> m_saved_lsa h \<le> m_saved_lsa h'')
   \<and> (lsa < m_saved_lsa h \<longrightarrow>
        receive_saved_lsa False lsa h = Inl Assertion_failed
        \<and> receive_saved_lsa True lsa h = Inr h)
   \<and> (lsa = m_saved_lsa h \<longrightarrow> receive_saved_lsa NDEBUG lsa h = Inr h)
   \<and> (m_saved_lsa h < lsa \<longrightarrow>
        receive_saved_lsa NDEBUG lsa h =
          Inr (h\<lparr>m_saved_lsa := lsa, effects := effects h @ [Wakeup_ps_flush_waiters]\<rparr>))"
proof (intro conjI impI)
  show "m_saved_lsa (new_connection_handler NULL_LSA nd) = NULL_LSA"
    by (simp add: new_connection_handler_def)
next
  assume "step NDEBUG conn_type c h = Inr h'"
  then show "m_saved_lsa h \<le> m_saved_lsa h'" by (rule step_saved_lsa_mono)
next
  assume "run NDEBUG conn_type calls h = Inr h''"
  then show "m_saved_lsa h \<le> m_saved_lsa h''" by (rule run_saved_lsa_mono)
next
  assume "lsa < m_saved_lsa h"
  then show "receive_saved_lsa False lsa h = Inl Assertion_failed"
    and "receive_saved_lsa True lsa h = Inr h"
    by (auto simp: receive_saved_lsa_def get_saved_lsa_def assert_fails_def)
next
  assume "lsa = m_saved_lsa h"
  then show "receive_saved_lsa NDEBUG lsa h = Inr h"
    by (simp add: receive_saved_lsa_def get_saved_lsa_def assert_fails_def)
next
  assume "m_saved_lsa h < lsa"
  then show "receive_saved_lsa NDEBUG lsa h =
          Inr (h\<lparr>m_saved_lsa := lsa, effects := effects h @ [Wakeup_ps_flush_waiters]\<rparr>)"
    by (auto simp: receive_saved_lsa_def get_saved_lsa_def assert_fails_def emit_def)
qed

theorem saved_lsa_monotone_witness:
  "\<exists>h. run False 1 [Receive_saved_lsa 5, Receive_saved_lsa 5, Receive_saved_lsa 9]
         (new_connection_handler (- 1) example_node) = Inr h
     \<and> m_saved_lsa (new_connection_handler (- 1 :: int) example_node) \<le> m_saved_lsa h
     \<and> m_saved_lsa h = 9
     \<and> receive_saved_lsa False 7 h = Inl Assertion_failed"
proof -
  let ?calls = "[Receive_saved_lsa 5, Receive_saved_lsa 5, Receive_saved_lsa (9 :: int)]"
  let ?h0 = "new_connection_handler (- 1 :: int) example_node"
  obtain h where r: "run False 1 ?calls ?h0 = Inr h" and s: "m_saved_lsa h = 9"
    by (simp add: handler_defs new_connection_handler_def)
  from saved_lsa_monotone [of "- 1" example_node False 1 "Receive_saved_lsa 5" ?h0 h ?calls h 7] r
  have m: "m_saved_lsa ?h0 \<le> m_saved_lsa h" by blast
  from s have "7 < m_saved_lsa h" by simp
  with saved_lsa_monotone [of "- 1" example_node False 1 "Receive_saved_lsa 5" h h ?calls h 7]
  have "receive_saved_lsa False 7 h = Inl Assertion_failed" by blast
  with r s m show ?thesis by blast
qed

end
